theory Spec2Isabelle
  imports Complex_Main
begin

section \<open>The quote script \<^verbatim>\<open>src/js/src/main.ts\<close>\<close>

text \<open>
  The program is one TypeScript module: seven module-level constants read from
  \<^verbatim>\<open>process.env\<close> (lines 14-20), and one asynchronous function that is called at once
  and whose rejection is handed to \<^verbatim>\<open>console.error\<close> (lines 22-68). Everything it calls
  belongs to external packages (web3.js, bn.js through anchor, the Orca SDKs) whose code is
  not part of the repository. The model therefore takes those calls as parameters, the
  record \<open>sdk\<close> below, and embeds what the module itself does: which values it reads,
  in which order it calls the libraries, what it passes, what it prints, and where an
  exception ends up.
\<close>

subsection \<open>Values\<close>

text \<open>A thrown JavaScript error, or the reason of a rejected promise.\<close>

datatype error = Error string

text \<open>A web3.js \<^verbatim>\<open>PublicKey\<close>: a number of at most 32 bytes.\<close>

datatype pubkey = PublicKey nat

text \<open>The handle \<^verbatim>\<open>new Connection(url)\<close> returns; it is also what the fetcher is bound to.\<close>

datatype connection = Connection string

text \<open>
  The fields of the SDK's \<^verbatim>\<open>WhirlpoolData\<close> that the module reads (lines 51, 52, 61),
  and \<^verbatim>\<open>tokenMintB\<close>, which the direction depends on.
\<close>

record whirlpool_data =
  tokenMintA :: pubkey
  tokenMintB :: pubkey
  tickCurrentIndex :: int
  tickSpacing :: nat

text \<open>The SDK's \<^verbatim>\<open>Whirlpool\<close> object, with its two methods used on lines 43 and 55.\<close>

record whirlpool =
  getAddress :: pubkey
  getData :: whirlpool_data

datatype SwapDirection = AtoB | BtoA

text \<open>
  Modelled from the spec: the class \<^verbatim>\<open>Percentage\<close> of the common SDK is not part of the
  sources. The spec describes the slippage as a fraction, a numerator over a denominator,
  and \<^verbatim>\<open>Percentage.fromFraction\<close> builds it from the two.
\<close>

record percentage =
  numerator :: int
  denominator :: int

definition fromFraction :: "int \<Rightarrow> int \<Rightarrow> percentage" where
  "fromFraction n d = \<lparr>numerator = n, denominator = d\<rparr>"

text \<open>The rational number a percentage stands for.\<close>

definition percentage_value :: "percentage \<Rightarrow> rat" where
  "percentage_value p = of_int (numerator p) / of_int (denominator p)"

text \<open>
  \<^verbatim>\<open>WhirlpoolContext.withProvider(provider, programId)\<close>: the module reads
  \<^verbatim>\<open>ctx.program.programId\<close> and \<^verbatim>\<open>ctx.fetcher\<close> from it (lines 64, 65). The provider
  wraps the connection and a key pair generated for the run, which nothing else reads.
\<close>

record whirlpool_context =
  programId :: pubkey
  fetcher :: connection

definition withProvider :: "connection \<Rightarrow> pubkey \<Rightarrow> whirlpool_context" where
  "withProvider conn pid = \<lparr>programId = pid, fetcher = conn\<rparr>"

text \<open>The six arguments of \<^verbatim>\<open>swapQuoteByInputToken\<close>, in the order of lines 60-65.\<close>

record quote_args =
  arg_whirlpool :: whirlpool
  arg_inputTokenMint :: pubkey
  arg_tokenAmount :: int
  arg_slippageTolerance :: percentage
  arg_programId :: pubkey
  arg_fetcher :: connection

subsection \<open>The external libraries\<close>

text \<open>
  The library calls of the module, as parameters. \<open>'w\<close> is the world outside the process
  (what the RPC node answers); \<open>'q\<close> is the type of a quote. A constructor that can throw
  returns a sum. \<^verbatim>\<open>process.env.X!\<close> is \<^verbatim>\<open>undefined\<close> for a variable that is not set (the
  \<^verbatim>\<open>!\<close> is erased by the compiler), so the constructors of lines 14-20 and 24 take a
  \<open>string option\<close>.

  \<^verbatim>\<open>PDAUtil.getWhirlpool\<close> and \<^verbatim>\<open>SwapUtils.getTickArrayPublicKeys\<close> are called
  synchronously and are given neither the context nor the connection (lines 34-40 and
  50-56): they are functions of their five arguments. \<^verbatim>\<open>getPool\<close> and
  \<^verbatim>\<open>swapQuoteByInputToken\<close> are awaited and read the network.
\<close>

record ('w, 'q) sdk =
  newPublicKey :: "string option \<Rightarrow> error + pubkey"
  newBN :: "string option \<Rightarrow> error + int"
  newConnection :: "string option \<Rightarrow> error + connection"
  getWhirlpool :: "pubkey \<Rightarrow> pubkey \<Rightarrow> pubkey \<Rightarrow> pubkey \<Rightarrow> nat \<Rightarrow> pubkey"
  getPool :: "'w \<Rightarrow> whirlpool_context \<Rightarrow> pubkey \<Rightarrow> error + whirlpool"
  getTickArrayPublicKeys :: "int \<Rightarrow> nat \<Rightarrow> bool \<Rightarrow> pubkey \<Rightarrow> pubkey \<Rightarrow> pubkey list"
  swapQuoteByInputToken :: "'w \<Rightarrow> quote_args \<Rightarrow> error + 'q"

text \<open>
  Modelled from the spec: \<^verbatim>\<open>SwapUtils.getSwapDirection\<close> belongs to the Orca SDK and is
  not part of the sources. The spec fixes two cases: given the pool state, the chosen
  token and a flag saying whether the amount is the input, the direction is A to B when
  the token's mint is the pool's token-A mint, and B to A when it is the token-B mint.
  The rest is filled in here: the token-A mint is looked at first, a mint that is neither
  has no direction (\<^verbatim>\<open>undefined\<close>), and for an amount that is the output the direction is
  the opposite one. The module always passes \<^verbatim>\<open>true\<close> for the flag.
\<close>

definition getSwapDirection :: "whirlpool_data \<Rightarrow> pubkey \<Rightarrow> bool \<Rightarrow> SwapDirection option" where
  "getSwapDirection pool swapTokenMint swapTokenIsInput =
     (if swapTokenMint = tokenMintA pool
        then Some (if swapTokenIsInput then AtoB else BtoA)
      else if swapTokenMint = tokenMintB pool
        then Some (if swapTokenIsInput then BtoA else AtoB)
      else None)"

subsection \<open>Configuration: lines 14-20\<close>

type_synonym env = "string \<Rightarrow> string option"

record config =
  WHIRLPOOL_PROGRAM_ID :: pubkey
  WHIRLPOOL_CONFIG :: pubkey
  INPUT_TOKEN :: pubkey
  OUTPUT_TOKEN :: pubkey
  HTTP_URL :: "string option"
  AMOUNT :: int
  SLIPPAGE :: int

text \<open>
  The seven constants, evaluated in the order of the source. The first constructor that
  throws ends the module load. \<^verbatim>\<open>HTTP_URL\<close> is only read: line 18 calls nothing.
\<close>

definition loadConfig :: "('w, 'q) sdk \<Rightarrow> env \<Rightarrow> error + config" where
  "loadConfig sdk env =
     (case newPublicKey sdk (env ''WHIRLPOOL_PROGRAM_ID'') of Inl e \<Rightarrow> Inl e | Inr program_id \<Rightarrow>
      case newPublicKey sdk (env ''WHIRLPOOL_CONFIG'') of Inl e \<Rightarrow> Inl e | Inr whirlpool_config \<Rightarrow>
      case newPublicKey sdk (env ''INPUT_TOKEN'') of Inl e \<Rightarrow> Inl e | Inr input_token \<Rightarrow>
      case newPublicKey sdk (env ''OUTPUT_TOKEN'') of Inl e \<Rightarrow> Inl e | Inr output_token \<Rightarrow>
      case newBN sdk (env ''AMOUNT'') of Inl e \<Rightarrow> Inl e | Inr amount \<Rightarrow>
      case newBN sdk (env ''SLIPPAGE'') of Inl e \<Rightarrow> Inl e | Inr slippage \<Rightarrow>
        Inr \<lparr>WHIRLPOOL_PROGRAM_ID = program_id, WHIRLPOOL_CONFIG = whirlpool_config,
             INPUT_TOKEN = input_token, OUTPUT_TOKEN = output_token,
             HTTP_URL = env ''HTTP_URL'', AMOUNT = amount, SLIPPAGE = slippage\<rparr>)"

subsection \<open>The asynchronous body: lines 22-67\<close>

text \<open>
  What the run does that can be seen from outside, in order: the three
  \<^verbatim>\<open>console.log\<close> lines and the two awaited calls that read the network.
\<close>

datatype 'q event =
    EvLogProgram "string option"
  | EvGetPool pubkey
  | EvLogTickArrays "pubkey list"
  | EvSwapQuote quote_args
  | EvLogQuote 'q

text \<open>
  Lines 34-40. \<^verbatim>\<open>new PublicKey(k)\<close> of a key \<open>k\<close> is a key of the same value, so the copy of
  lines 31 and 35 is \<open>k\<close> itself. The tick spacing is the literal 4.
\<close>

definition whirlpoolPda :: "('w, 'q) sdk \<Rightarrow> config \<Rightarrow> pubkey" where
  "whirlpoolPda sdk cfg =
     getWhirlpool sdk (WHIRLPOOL_PROGRAM_ID cfg) (WHIRLPOOL_CONFIG cfg)
       (INPUT_TOKEN cfg) (OUTPUT_TOKEN cfg) 4"

text \<open>
  Lines 44-48. \<^verbatim>\<open>AddressUtil.toPubKey\<close> of a key is the key; the amount is the input
  (\<^verbatim>\<open>amountSpecifiedIsInput = true\<close>); the boolean is the comparison with
  \<^verbatim>\<open>SwapDirection.AtoB\<close>.
\<close>

definition aToB :: "whirlpool_data \<Rightarrow> config \<Rightarrow> bool" where
  "aToB whirlpoolData cfg =
     (let swapMintKey = INPUT_TOKEN cfg;
          amountSpecifiedIsInput = True
      in getSwapDirection whirlpoolData swapMintKey amountSpecifiedIsInput = Some AtoB)"

text \<open>Lines 50-56.\<close>

definition tickArrays :: "('w, 'q) sdk \<Rightarrow> config \<Rightarrow> whirlpool \<Rightarrow> pubkey list" where
  "tickArrays sdk cfg pool =
     (let whirlpoolData = getData pool
      in getTickArrayPublicKeys sdk (tickCurrentIndex whirlpoolData) (tickSpacing whirlpoolData)
           (aToB whirlpoolData cfg) (WHIRLPOOL_PROGRAM_ID cfg) (getAddress pool))"

text \<open>
  Lines 60-65: the arguments of the quote. \<^verbatim>\<open>new BN(AMOUNT)\<close> of a \<^verbatim>\<open>BN\<close> is that number.
  The mint is \<^verbatim>\<open>whirlpoolData.tokenMintA\<close>.
\<close>

definition quoteArgs :: "whirlpool_context \<Rightarrow> config \<Rightarrow> whirlpool \<Rightarrow> quote_args" where
  "quoteArgs ctx cfg pool =
     \<lparr>arg_whirlpool = pool,
      arg_inputTokenMint = tokenMintA (getData pool),
      arg_tokenAmount = AMOUNT cfg,
      arg_slippageTolerance = fromFraction (SLIPPAGE cfg) 100,
      arg_programId = programId ctx,
      arg_fetcher = fetcher ctx\<rparr>"

text \<open>
  The body returns what it did and whether the promise was fulfilled or rejected. An
  exception thrown by \<^verbatim>\<open>new Connection\<close>, and a rejection of either awaited call, reject
  the promise of the whole function at that point.
\<close>

definition main_body ::
  "('w, 'q) sdk \<Rightarrow> 'w \<Rightarrow> env \<Rightarrow> config \<Rightarrow> 'q event list \<times> (error + unit)" where
  "main_body sdk w env cfg =
     (case newConnection sdk (HTTP_URL cfg) of
        Inl e \<Rightarrow> ([], Inl e)
      | Inr conn \<Rightarrow>
          (let log1 = EvLogProgram (env ''WHIRLPOOL_PROGRAM_ID'');
               ctx = withProvider conn (WHIRLPOOL_PROGRAM_ID cfg);
               pda = whirlpoolPda sdk cfg
           in case getPool sdk w ctx pda of
                Inl e \<Rightarrow> ([log1, EvGetPool pda], Inl e)
              | Inr pool \<Rightarrow>
                  (let args = quoteArgs ctx cfg pool;
                       evs = [log1, EvGetPool pda, EvLogTickArrays (tickArrays sdk cfg pool),
                              EvSwapQuote args]
                   in case swapQuoteByInputToken sdk w args of
                        Inl e \<Rightarrow> (evs, Inl e)
                      | Inr q \<Rightarrow> (evs @ [EvLogQuote q], Inr ()))))"

subsection \<open>The process\<close>

text \<open>
  What the process leaves behind: the events of the body, the errors printed on the error
  stream, and the exit code.
  \<^item> An exception thrown while the module loads (lines 14-20) is caught by nobody: Node
    prints it and exits with code 1. The asynchronous function is never called.
  \<^item> A rejection of the asynchronous function is handled by \<^verbatim>\<open>.catch(console.error)\<close>
    (line 68): the error is printed, the handler returns normally, and the process ends
    with code 0, as it does after a quote.
\<close>

record 'q outcome =
  events :: "'q event list"
  stderr :: "error list"
  exit_code :: nat

definition run :: "('w, 'q) sdk \<Rightarrow> 'w \<Rightarrow> env \<Rightarrow> 'q outcome" where
  "run sdk w env =
     (case loadConfig sdk env of
        Inl e \<Rightarrow> \<lparr>events = [], stderr = [e], exit_code = 1\<rparr>
      | Inr cfg \<Rightarrow>
          (case main_body sdk w env cfg of
             (evs, Inl e) \<Rightarrow> \<lparr>events = evs, stderr = [e], exit_code = 0\<rparr>
           | (evs, Inr u) \<Rightarrow> \<lparr>events = evs, stderr = [], exit_code = 0\<rparr>))"

text \<open>Projections of the events: the quotes printed, the quote calls, the pool reads.\<close>

fun printedQuotes :: "'q event list \<Rightarrow> 'q list" where
  "printedQuotes [] = []"
| "printedQuotes (EvLogQuote q # es) = q # printedQuotes es"
| "printedQuotes (e # es) = printedQuotes es"

fun quoteCalls :: "'q event list \<Rightarrow> quote_args list" where
  "quoteCalls [] = []"
| "quoteCalls (EvSwapQuote a # es) = a # quoteCalls es"
| "quoteCalls (e # es) = quoteCalls es"

fun poolReads :: "'q event list \<Rightarrow> pubkey list" where
  "poolReads [] = []"
| "poolReads (EvGetPool a # es) = a # poolReads es"
| "poolReads (e # es) = poolReads es"

subsection \<open>Names used to state the properties\<close>

text \<open>The variables read by a \<^verbatim>\<open>PublicKey\<close> constructor and by a \<^verbatim>\<open>BN\<close> constructor.\<close>

definition address_vars :: "string list" where
  "address_vars = [''WHIRLPOOL_PROGRAM_ID'', ''WHIRLPOOL_CONFIG'', ''INPUT_TOKEN'', ''OUTPUT_TOKEN'']"

definition number_vars :: "string list" where
  "number_vars = [''AMOUNT'', ''SLIPPAGE'']"

text \<open>The environment with the values of the two token variables exchanged.\<close>

definition swapTokens :: "env \<Rightarrow> env" where
  "swapTokens env = env(''INPUT_TOKEN'' := env ''OUTPUT_TOKEN'', ''OUTPUT_TOKEN'' := env ''INPUT_TOKEN'')"

subsection \<open>A test double of the libraries\<close>

text \<open>
  Concrete libraries, environment and chain for the concrete runs below. Keys are small
  numbers with short names; the derivation writes its five arguments side by side, so it
  tells the order of the two mints apart, as a hash of the seeds in order does. The
  \<^verbatim>\<open>PublicKey\<close> constructor throws on \<^verbatim>\<open>undefined\<close> and on a string that is not a key. The
  \<^verbatim>\<open>Connection\<close> constructor throws on \<^verbatim>\<open>undefined\<close>. The chain is the list of pool
  accounts; reading an address with no account rejects. The quote refuses the amount 0,
  as the SDK does, and otherwise echoes the mint and the amount it was asked for.
\<close>

definition stubPublicKey :: "string option \<Rightarrow> error + pubkey" where
  "stubPublicKey v =
     (case v of
        None \<Rightarrow> Inl (Error ''Cannot read properties of undefined'')
      | Some s \<Rightarrow>
          (case map_of [(''Prog'', PublicKey 7), (''Conf'', PublicKey 8),
                        (''MintSOL'', PublicKey 11), (''MintWIF'', PublicKey 22)] s of
             None \<Rightarrow> Inl (Error ''Invalid public key input'')
           | Some k \<Rightarrow> Inr k))"

text \<open>
  The \<^verbatim>\<open>BN\<close> constructor of the double reads its argument as bn.js does in base 10.
  \<^verbatim>\<open>undefined\<close> and the empty string are falsy, and \<^verbatim>\<open>number || 0\<close> makes 0 of them.
  Of any other string the white space is removed and a leading minus sign is taken as the
  sign; what is left is read digit by digit, and a character that is not a decimal digit
  throws. A string with nothing left to read is not refused: bn.js leaves such a number
  without words, and the double reads it as 0.
\<close>

definition decimal_digit :: "char \<Rightarrow> nat option" where
  "decimal_digit c =
     map_of [(CHR ''0'', 0), (CHR ''1'', 1), (CHR ''2'', 2), (CHR ''3'', 3), (CHR ''4'', 4),
             (CHR ''5'', 5), (CHR ''6'', 6), (CHR ''7'', 7), (CHR ''8'', 8), (CHR ''9'', 9)] c"

fun parseBase :: "nat \<Rightarrow> string \<Rightarrow> nat option" where
  "parseBase r [] = Some r"
| "parseBase r (c # cs) =
     (case decimal_digit c of None \<Rightarrow> None | Some b \<Rightarrow> parseBase (r * 10 + b) cs)"

definition white_space :: "char \<Rightarrow> bool" where
  "white_space c = (c \<in> set [CHR '' '', CHR 0x09, CHR 0x0A, CHR 0x0B, CHR 0x0C, CHR 0x0D])"

definition stubBN :: "string option \<Rightarrow> error + int" where
  "stubBN v =
     (case v of
        None \<Rightarrow> Inr 0
      | Some s \<Rightarrow>
          (if s = [] then Inr 0
           else (let number = filter (\<lambda>c. \<not> white_space c) s;
                     negative = (number \<noteq> [] \<and> hd number = CHR ''-'');
                     digits = (if negative then tl number else number)
                 in case parseBase 0 digits of
                      None \<Rightarrow> Inl (Error ''Invalid character'')
                    | Some n \<Rightarrow> Inr (if negative then - int n else int n))))"

definition stubConnection :: "string option \<Rightarrow> error + connection" where
  "stubConnection v =
     (case v of
        None \<Rightarrow> Inl (Error ''Endpoint URL must start with http: or https:'')
      | Some u \<Rightarrow> Inr (Connection u))"

fun stubGetWhirlpool :: "pubkey \<Rightarrow> pubkey \<Rightarrow> pubkey \<Rightarrow> pubkey \<Rightarrow> nat \<Rightarrow> pubkey" where
  "stubGetWhirlpool (PublicKey p) (PublicKey c) (PublicKey a) (PublicKey b) t =
     PublicKey ((((p * 100 + c) * 100 + a) * 100 + b) * 100 + t)"

type_synonym accounts = "(pubkey \<times> whirlpool) list"

definition stubGetPool :: "accounts \<Rightarrow> whirlpool_context \<Rightarrow> pubkey \<Rightarrow> error + whirlpool" where
  "stubGetPool w ctx addr =
     (case map_of w addr of
        None \<Rightarrow> Inl (Error ''Unable to fetch Whirlpool'')
      | Some p \<Rightarrow> Inr p)"

definition stubQuote :: "accounts \<Rightarrow> quote_args \<Rightarrow> error + (pubkey \<times> int)" where
  "stubQuote w args =
     (if arg_tokenAmount args = 0 then Inl (Error ''Provided tokenAmount is zero.'')
      else Inr (arg_inputTokenMint args, arg_tokenAmount args))"

definition test_sdk :: "(accounts, pubkey \<times> int) sdk" where
  "test_sdk =
     \<lparr>newPublicKey = stubPublicKey, newBN = stubBN, newConnection = stubConnection,
      getWhirlpool = stubGetWhirlpool, getPool = stubGetPool,
      getTickArrayPublicKeys = (\<lambda>tick spacing a_to_b pid pool. [pool]),
      swapQuoteByInputToken = stubQuote\<rparr>"

definition test_env :: env where
  "test_env = map_of
     [(''WHIRLPOOL_PROGRAM_ID'', ''Prog''), (''WHIRLPOOL_CONFIG'', ''Conf''),
      (''INPUT_TOKEN'', ''MintSOL''), (''OUTPUT_TOKEN'', ''MintWIF''),
      (''HTTP_URL'', ''https://rpc''), (''AMOUNT'', ''1000000''), (''SLIPPAGE'', ''1'')]"

definition sol_wif_data :: whirlpool_data where
  "sol_wif_data = \<lparr>tokenMintA = PublicKey 11, tokenMintB = PublicKey 22,
                   tickCurrentIndex = - 100, tickSpacing = 4\<rparr>"

definition test_world :: accounts where
  "test_world = [(PublicKey 708112204,
                  \<lparr>getAddress = PublicKey 708112204, getData = sol_wif_data\<rparr>)]"



text \<open>The configuration \<open>test_env\<close> parses to, and a pool state whose two mints are the same key.\<close>

definition test_config :: config where
  "test_config =
     \<lparr>WHIRLPOOL_PROGRAM_ID = PublicKey 7, WHIRLPOOL_CONFIG = PublicKey 8,
      INPUT_TOKEN = PublicKey 11, OUTPUT_TOKEN = PublicKey 22,
      HTTP_URL = Some ''https://rpc'', AMOUNT = 1000000, SLIPPAGE = 1\<rparr>"


section \<open>Facts about the run\<close>

lemmas stubs = test_sdk_def stubPublicKey_def stubBN_def decimal_digit_def white_space_def
  stubConnection_def stubGetPool_def stubQuote_def test_env_def test_world_def sol_wif_data_def
lemmas body_defs = main_body_def whirlpoolPda_def withProvider_def quoteArgs_def tickArrays_def
  aToB_def getSwapDirection_def fromFraction_def Let_def

lemma run_load_fails:
  "loadConfig sdk env = Inl e \<Longrightarrow> run sdk w env = \<lparr>events = [], stderr = [e], exit_code = 1\<rparr>"
  by (simp add: run_def)

lemma events_run:
  "loadConfig sdk env = Inr cfg \<Longrightarrow> events (run sdk w env) = fst (main_body sdk w env cfg)"
  by (simp add: run_def split: prod.splits sum.splits)

lemma stderr_run:
  "loadConfig sdk env = Inr cfg \<Longrightarrow>
   stderr (run sdk w env) = (case snd (main_body sdk w env cfg) of Inl e \<Rightarrow> [e] | Inr u \<Rightarrow> [])"
  by (simp add: run_def split: prod.splits sum.splits)

lemma exit_code_run:
  "loadConfig sdk env = Inr cfg \<Longrightarrow> exit_code (run sdk w env) = 0"
  by (simp add: run_def split: prod.splits sum.splits)

lemma loadConfig_address_fails:
  "v \<in> set address_vars \<Longrightarrow> newPublicKey sdk (env v) = Inl e \<Longrightarrow> \<exists>e'. loadConfig sdk env = Inl e'"
  by (auto simp: address_vars_def loadConfig_def split: sum.splits)

lemma loadConfig_number_fails:
  "v \<in> set number_vars \<Longrightarrow> newBN sdk (env v) = Inl e \<Longrightarrow> \<exists>e'. loadConfig sdk env = Inl e'"
  by (auto simp: number_vars_def loadConfig_def split: sum.splits)

lemma loadConfig_Inr:
  "loadConfig sdk env = Inr cfg \<Longrightarrow>
     newPublicKey sdk (env ''WHIRLPOOL_PROGRAM_ID'') = Inr (WHIRLPOOL_PROGRAM_ID cfg) \<and>
     newPublicKey sdk (env ''WHIRLPOOL_CONFIG'') = Inr (WHIRLPOOL_CONFIG cfg) \<and>
     newPublicKey sdk (env ''INPUT_TOKEN'') = Inr (INPUT_TOKEN cfg) \<and>
     newPublicKey sdk (env ''OUTPUT_TOKEN'') = Inr (OUTPUT_TOKEN cfg) \<and>
     HTTP_URL cfg = env ''HTTP_URL'' \<and>
     newBN sdk (env ''AMOUNT'') = Inr (AMOUNT cfg) \<and>
     newBN sdk (env ''SLIPPAGE'') = Inr (SLIPPAGE cfg)"
  by (auto simp: loadConfig_def split: sum.splits)

lemma body_no_quote_on_rejection:
  "snd (main_body sdk w env cfg) = Inl e \<Longrightarrow> printedQuotes (fst (main_body sdk w env cfg)) = []"
  by (auto simp: main_body_def Let_def split: sum.splits)

lemma body_quoteCalls:
  "a \<in> set (quoteCalls (fst (main_body sdk w env cfg))) \<Longrightarrow>
   \<exists>conn pool. newConnection sdk (HTTP_URL cfg) = Inr conn \<and>
      getPool sdk w (withProvider conn (WHIRLPOOL_PROGRAM_ID cfg)) (whirlpoolPda sdk cfg) = Inr pool \<and>
      a = quoteArgs (withProvider conn (WHIRLPOOL_PROGRAM_ID cfg)) cfg pool"
  by (auto simp: main_body_def Let_def split: sum.splits)

lemma body_poolReads:
  "set (poolReads (fst (main_body sdk w env cfg))) \<subseteq> {whirlpoolPda sdk cfg}"
  by (auto simp: main_body_def Let_def split: sum.splits)

lemma load_test:
  "loadConfig test_sdk test_env =
     Inr \<lparr>WHIRLPOOL_PROGRAM_ID = PublicKey 7, WHIRLPOOL_CONFIG = PublicKey 8,
          INPUT_TOKEN = PublicKey 11, OUTPUT_TOKEN = PublicKey 22,
          HTTP_URL = Some ''https://rpc'', AMOUNT = 1000000, SLIPPAGE = 1\<rparr>"
  by (simp add: loadConfig_def stubs)

lemma run_test:
  "run test_sdk test_world test_env =
     \<lparr>events = [EvLogProgram (Some ''Prog''), EvGetPool (PublicKey 708112204),
                EvLogTickArrays [PublicKey 708112204],
                EvSwapQuote \<lparr>arg_whirlpool = \<lparr>getAddress = PublicKey 708112204, getData = sol_wif_data\<rparr>,
                   arg_inputTokenMint = PublicKey 11, arg_tokenAmount = 1000000,
                   arg_slippageTolerance = \<lparr>numerator = 1, denominator = 100\<rparr>,
                   arg_programId = PublicKey 7, arg_fetcher = Connection ''https://rpc''\<rparr>,
                EvLogQuote (PublicKey 11, 1000000)],
      stderr = [], exit_code = 0\<rparr>"
  by (simp add: run_def load_test) (simp add: body_defs stubs)

lemma run_no_pool:
  "run test_sdk [] test_env =
     \<lparr>events = [EvLogProgram (Some ''Prog''), EvGetPool (PublicKey 708112204)],
      stderr = [Error ''Unable to fetch Whirlpool''], exit_code = 0\<rparr>"
  by (simp add: run_def load_test) (simp add: body_defs stubs)

lemma load_no_input:
  "loadConfig test_sdk (test_env(''INPUT_TOKEN'' := None)) =
     Inl (Error ''Cannot read properties of undefined'')"
  by (simp add: loadConfig_def stubs)



lemma load_no_amount:
  "loadConfig test_sdk (test_env(''AMOUNT'' := None)) =
     Inr \<lparr>WHIRLPOOL_PROGRAM_ID = PublicKey 7, WHIRLPOOL_CONFIG = PublicKey 8,
          INPUT_TOKEN = PublicKey 11, OUTPUT_TOKEN = PublicKey 22,
          HTTP_URL = Some ''https://rpc'', AMOUNT = 0, SLIPPAGE = 1\<rparr>"
  by (simp add: loadConfig_def stubs)

lemma load_no_slippage:
  "loadConfig test_sdk (test_env(''SLIPPAGE'' := None)) =
     Inr \<lparr>WHIRLPOOL_PROGRAM_ID = PublicKey 7, WHIRLPOOL_CONFIG = PublicKey 8,
          INPUT_TOKEN = PublicKey 11, OUTPUT_TOKEN = PublicKey 22,
          HTTP_URL = Some ''https://rpc'', AMOUNT = 1000000, SLIPPAGE = 0\<rparr>"
  by (simp add: loadConfig_def stubs)

lemma load_empty_amount:
  "loadConfig test_sdk (test_env(''AMOUNT'' := Some '''')) =
     Inr \<lparr>WHIRLPOOL_PROGRAM_ID = PublicKey 7, WHIRLPOOL_CONFIG = PublicKey 8,
          INPUT_TOKEN = PublicKey 11, OUTPUT_TOKEN = PublicKey 22,
          HTTP_URL = Some ''https://rpc'', AMOUNT = 0, SLIPPAGE = 1\<rparr>"
  by (simp add: loadConfig_def stubs)

lemma run_no_amount:
  "run test_sdk test_world (test_env(''AMOUNT'' := None)) =
     \<lparr>events = [EvLogProgram (Some ''Prog''), EvGetPool (PublicKey 708112204),
                EvLogTickArrays [PublicKey 708112204],
                EvSwapQuote \<lparr>arg_whirlpool = \<lparr>getAddress = PublicKey 708112204, getData = sol_wif_data\<rparr>,
                   arg_inputTokenMint = PublicKey 11, arg_tokenAmount = 0,
                   arg_slippageTolerance = \<lparr>numerator = 1, denominator = 100\<rparr>,
                   arg_programId = PublicKey 7, arg_fetcher = Connection ''https://rpc''\<rparr>],
      stderr = [Error ''Provided tokenAmount is zero.''], exit_code = 0\<rparr>"
  by (simp add: run_def load_no_amount) (simp add: body_defs stubs)

lemma run_empty_amount:
  "run test_sdk test_world (test_env(''AMOUNT'' := Some '''')) =
     \<lparr>events = [EvLogProgram (Some ''Prog''), EvGetPool (PublicKey 708112204),
                EvLogTickArrays [PublicKey 708112204],
                EvSwapQuote \<lparr>arg_whirlpool = \<lparr>getAddress = PublicKey 708112204, getData = sol_wif_data\<rparr>,
                   arg_inputTokenMint = PublicKey 11, arg_tokenAmount = 0,
                   arg_slippageTolerance = \<lparr>numerator = 1, denominator = 100\<rparr>,
                   arg_programId = PublicKey 7, arg_fetcher = Connection ''https://rpc''\<rparr>],
      stderr = [Error ''Provided tokenAmount is zero.''], exit_code = 0\<rparr>"
  by (simp add: run_def load_empty_amount) (simp add: body_defs stubs)

lemma run_no_slippage:
  "run test_sdk test_world (test_env(''SLIPPAGE'' := None)) =
     \<lparr>events = [EvLogProgram (Some ''Prog''), EvGetPool (PublicKey 708112204),
                EvLogTickArrays [PublicKey 708112204],
                EvSwapQuote \<lparr>arg_whirlpool = \<lparr>getAddress = PublicKey 708112204, getData = sol_wif_data\<rparr>,
                   arg_inputTokenMint = PublicKey 11, arg_tokenAmount = 1000000,
                   arg_slippageTolerance = \<lparr>numerator = 0, denominator = 100\<rparr>,
                   arg_programId = PublicKey 7, arg_fetcher = Connection ''https://rpc''\<rparr>,
                EvLogQuote (PublicKey 11, 1000000)],
      stderr = [], exit_code = 0\<rparr>"
  by (simp add: run_def load_no_slippage) (simp add: body_defs stubs)

lemma run_quoteCalls:
  assumes "a \<in> set (quoteCalls (events (run sdk w env)))"
  shows "newBN sdk (env ''AMOUNT'') = Inr (arg_tokenAmount a) \<and>
         newBN sdk (env ''SLIPPAGE'') = Inr (numerator (arg_slippageTolerance a)) \<and>
         denominator (arg_slippageTolerance a) = 100"
proof (cases "loadConfig sdk env")
  case (Inl e)
  with assms show ?thesis by (simp add: run_load_fails)
next
  case (Inr cfg)
  with assms have "a \<in> set (quoteCalls (fst (main_body sdk w env cfg)))"
    by (simp add: events_run)
  then obtain ctx pool where "a = quoteArgs ctx cfg pool"
    by (blast dest: body_quoteCalls)
  with loadConfig_Inr [OF Inr] show ?thesis
    by (simp add: quoteArgs_def fromFraction_def)
qed

lemma loadConfig_Inl_iff:
  "(\<exists>e. loadConfig sdk env = Inl e) \<longleftrightarrow>
   (\<exists>u e. (u \<in> set address_vars \<and> newPublicKey sdk (env u) = Inl e) \<or>
          (u \<in> set number_vars \<and> newBN sdk (env u) = Inl e))"
proof
  assume "\<exists>e. loadConfig sdk env = Inl e"
  then show "\<exists>u e. (u \<in> set address_vars \<and> newPublicKey sdk (env u) = Inl e) \<or>
          (u \<in> set number_vars \<and> newBN sdk (env u) = Inl e)"
    by (auto simp: loadConfig_def address_vars_def number_vars_def split: sum.splits)
next
  assume "\<exists>u e. (u \<in> set address_vars \<and> newPublicKey sdk (env u) = Inl e) \<or>
          (u \<in> set number_vars \<and> newBN sdk (env u) = Inl e)"
  then show "\<exists>e. loadConfig sdk env = Inl e"
    using loadConfig_address_fails [of _ sdk env] loadConfig_number_fails [of _ sdk env]
    by blast
qed

lemma load_no_url:
  "loadConfig test_sdk (test_env(''HTTP_URL'' := None)) =
     Inr \<lparr>WHIRLPOOL_PROGRAM_ID = PublicKey 7, WHIRLPOOL_CONFIG = PublicKey 8,
          INPUT_TOKEN = PublicKey 11, OUTPUT_TOKEN = PublicKey 22,
          HTTP_URL = None, AMOUNT = 1000000, SLIPPAGE = 1\<rparr>"
  by (simp add: loadConfig_def stubs)

lemma load_other:
  "loadConfig test_sdk (test_env(''AMOUNT'' := None, ''HTTP_URL'' := Some ''http://other'')) =
     Inr \<lparr>WHIRLPOOL_PROGRAM_ID = PublicKey 7, WHIRLPOOL_CONFIG = PublicKey 8,
          INPUT_TOKEN = PublicKey 11, OUTPUT_TOKEN = PublicKey 22,
          HTTP_URL = Some ''http://other'', AMOUNT = 0, SLIPPAGE = 1\<rparr>"
  by (simp add: loadConfig_def stubs)

lemma loadConfig_tick_arrays:
  "loadConfig (sdk\<lparr>getTickArrayPublicKeys := f\<rparr>) env = loadConfig sdk env"
  by (simp add: loadConfig_def split: sum.splits)

lemma body_tick_arrays:
  "snd (main_body (sdk\<lparr>getTickArrayPublicKeys := f\<rparr>) w env cfg) = snd (main_body sdk w env cfg) \<and>
   quoteCalls (fst (main_body (sdk\<lparr>getTickArrayPublicKeys := f\<rparr>) w env cfg)) =
     quoteCalls (fst (main_body sdk w env cfg)) \<and>
   printedQuotes (fst (main_body (sdk\<lparr>getTickArrayPublicKeys := f\<rparr>) w env cfg)) =
     printedQuotes (fst (main_body sdk w env cfg)) \<and>
   poolReads (fst (main_body (sdk\<lparr>getTickArrayPublicKeys := f\<rparr>) w env cfg)) =
     poolReads (fst (main_body sdk w env cfg))"
  by (simp add: main_body_def whirlpoolPda_def Let_def split: sum.splits)

section \<open>C1: what a failing run leaves behind\<close>

text \<open>
  C1 says that every failing run, a missing pool account in particular, ends with a
  non-zero exit code after printing the error, and prints no quote. The code prints the
  error and no quote in every failing run, but the exit code is non-zero only for an
  exception thrown while the module loads. A failure inside the asynchronous function (the
  connection constructor, the pool read, the quote) rejects its promise; line 68 catches
  the rejection with \<^verbatim>\<open>console.error\<close>, and the process ends with code 0. For a missing
  pool account the run has printed the program id and has read the derived address, and
  nothing more.
\<close>

theorem failing_run_prints_error_without_quote:
  "(loadConfig sdk env = Inl e \<longrightarrow>
      run sdk w env = \<lparr>events = [], stderr = [e], exit_code = 1\<rparr>) \<and>
   (loadConfig sdk env = Inr cfg \<and> snd (main_body sdk w env cfg) = Inl e \<longrightarrow>
      stderr (run sdk w env) = [e] \<and> exit_code (run sdk w env) = 0 \<and>
      printedQuotes (events (run sdk w env)) = []) \<and>
   (loadConfig sdk env = Inr cfg \<and> newConnection sdk (HTTP_URL cfg) = Inr conn \<and>
    getPool sdk w (withProvider conn (WHIRLPOOL_PROGRAM_ID cfg)) (whirlpoolPda sdk cfg) = Inl e \<longrightarrow>
      run sdk w env =
        \<lparr>events = [EvLogProgram (env ''WHIRLPOOL_PROGRAM_ID''), EvGetPool (whirlpoolPda sdk cfg)],
         stderr = [e], exit_code = 0\<rparr>) \<and>
   (exit_code (run sdk w env) \<noteq> 0 \<longleftrightarrow> (\<exists>e'. loadConfig sdk env = Inl e'))"
proof (intro conjI impI)
  assume "loadConfig sdk env = Inl e"
  then show "run sdk w env = \<lparr>events = [], stderr = [e], exit_code = 1\<rparr>"
    by (rule run_load_fails)
next
  assume a: "loadConfig sdk env = Inr cfg \<and> snd (main_body sdk w env cfg) = Inl e"
  then show "stderr (run sdk w env) = [e]" by (simp add: stderr_run)
  from a show "exit_code (run sdk w env) = 0" by (simp add: exit_code_run)
  from a show "printedQuotes (events (run sdk w env)) = []"
    by (simp add: events_run body_no_quote_on_rejection)
next
  assume "loadConfig sdk env = Inr cfg \<and> newConnection sdk (HTTP_URL cfg) = Inr conn \<and>
    getPool sdk w (withProvider conn (WHIRLPOOL_PROGRAM_ID cfg)) (whirlpoolPda sdk cfg) = Inl e"
  then show "run sdk w env =
        \<lparr>events = [EvLogProgram (env ''WHIRLPOOL_PROGRAM_ID''), EvGetPool (whirlpoolPda sdk cfg)],
         stderr = [e], exit_code = 0\<rparr>"
    by (simp add: run_def main_body_def Let_def)
next
  show "exit_code (run sdk w env) \<noteq> 0 \<longleftrightarrow> (\<exists>e'. loadConfig sdk env = Inl e')"
    by (cases "loadConfig sdk env") (simp_all add: run_load_fails exit_code_run)
qed

theorem failing_run_prints_error_without_quote_witness:
  "run test_sdk test_world (test_env(''INPUT_TOKEN'' := None)) =
     \<lparr>events = [], stderr = [Error ''Cannot read properties of undefined''], exit_code = 1\<rparr> \<and>
   run test_sdk [] test_env =
     \<lparr>events = [EvLogProgram (Some ''Prog''), EvGetPool (PublicKey 708112204)],
      stderr = [Error ''Unable to fetch Whirlpool''], exit_code = 0\<rparr> \<and>
   printedQuotes (events (run test_sdk [] test_env)) = []"
proof -
  let ?cfg = "\<lparr>WHIRLPOOL_PROGRAM_ID = PublicKey 7, WHIRLPOOL_CONFIG = PublicKey 8,
          INPUT_TOKEN = PublicKey 11, OUTPUT_TOKEN = PublicKey 22,
          HTTP_URL = Some ''https://rpc'', AMOUNT = 1000000, SLIPPAGE = 1\<rparr>"
  let ?e = "Error ''Unable to fetch Whirlpool''"
  have conn: "newConnection test_sdk (HTTP_URL ?cfg) = Inr (Connection ''https://rpc'')"
    by (simp add: stubs)
  have pool: "getPool test_sdk [] (withProvider (Connection ''https://rpc'') (WHIRLPOOL_PROGRAM_ID ?cfg))
      (whirlpoolPda test_sdk ?cfg) = Inl ?e"
    by (simp add: stubs)
  have body: "snd (main_body test_sdk [] test_env ?cfg) = Inl ?e"
    by (simp add: body_defs stubs)
  have pda: "whirlpoolPda test_sdk ?cfg = PublicKey 708112204"
    by (simp add: whirlpoolPda_def test_sdk_def)
  have prog: "test_env ''WHIRLPOOL_PROGRAM_ID'' = Some ''Prog''"
    by (simp add: test_env_def)
  note t1 = failing_run_prints_error_without_quote
    [of test_sdk "test_env(''INPUT_TOKEN'' := None)" "Error ''Cannot read properties of undefined''"
        test_world ?cfg "Connection ''https://rpc''"]
  note t2 = failing_run_prints_error_without_quote
    [of test_sdk test_env ?e "[]" ?cfg "Connection ''https://rpc''"]
  from t1 load_no_input have
    "run test_sdk test_world (test_env(''INPUT_TOKEN'' := None)) =
     \<lparr>events = [], stderr = [Error ''Cannot read properties of undefined''], exit_code = 1\<rparr>"
    by blast
  moreover from t2 load_test conn pool have
    "run test_sdk [] test_env =
        \<lparr>events = [EvLogProgram (test_env ''WHIRLPOOL_PROGRAM_ID''), EvGetPool (whirlpoolPda test_sdk ?cfg)],
         stderr = [?e], exit_code = 0\<rparr>"
    by blast
  moreover from t2 load_test body have "printedQuotes (events (run test_sdk [] test_env)) = []"
    by blast
  ultimately show ?thesis by (simp add: pda prog)
qed

text \<open>
  C1 as stated fails: with no account at the derived address the run prints the error and
  the exit code is 0.
\<close>

theorem missing_pool_exits_with_code_zero:
  "stderr (run test_sdk [] test_env) = [Error ''Unable to fetch Whirlpool''] \<and>
   exit_code (run test_sdk [] test_env) = 0"
  by (simp add: run_no_pool)

section \<open>C2: the mint and the amount of the quote\<close>

text \<open>
  Whatever the libraries and the chain are, the mint of every quote call is the token-A mint
  of the pool that was read (line 61), and line 44 takes the swap mint from
  \<^verbatim>\<open>INPUT_TOKEN\<close> only for the direction.
\<close>

lemma quote_mint_is_tokenMintA:
  "a \<in> set (quoteCalls (events (run sdk w env))) \<Longrightarrow>
   arg_inputTokenMint a = tokenMintA (getData (arg_whirlpool a))"
  by (cases "loadConfig sdk env")
     (auto simp: run_load_fails events_run quoteArgs_def dest!: body_quoteCalls)


section \<open>C3: a variable that is not set\<close>

text \<open>
  C3 says that the process fails at startup, with a fatal error, when any of the seven
  variables is absent, and never goes on with a default. The module checks no variable
  itself: it hands the value, \<^verbatim>\<open>undefined\<close> when the variable is absent, to a constructor.
  What holds is this. For the four address variables, if the \<^verbatim>\<open>PublicKey\<close> constructor
  throws on \<^verbatim>\<open>undefined\<close>, the module load fails: one error, exit code 1, nothing else
  done. For \<^verbatim>\<open>AMOUNT\<close> absent, every quote call of the run carries as its amount the number
  the \<^verbatim>\<open>BN\<close> constructor makes of \<^verbatim>\<open>undefined\<close>; for \<^verbatim>\<open>SLIPPAGE\<close> absent, every quote call
  carries that number over 100 as its slippage. For \<^verbatim>\<open>HTTP_URL\<close> the module load does not
  fail; if the \<^verbatim>\<open>Connection\<close> constructor throws on \<^verbatim>\<open>undefined\<close>, the error is caught and
  printed, nothing was read from the network, and the exit code is 0.
\<close>

theorem absent_variable_reaches_the_constructor:
  "(v \<in> set address_vars \<and> env v = None \<and> newPublicKey sdk None = Inl e \<longrightarrow>
      (\<exists>e'. run sdk w env = \<lparr>events = [], stderr = [e'], exit_code = 1\<rparr>)) \<and>
   (env ''AMOUNT'' = None \<and> a \<in> set (quoteCalls (events (run sdk w env))) \<longrightarrow>
      newBN sdk None = Inr (arg_tokenAmount a)) \<and>
   (env ''SLIPPAGE'' = None \<and> a \<in> set (quoteCalls (events (run sdk w env))) \<longrightarrow>
      newBN sdk None = Inr (numerator (arg_slippageTolerance a)) \<and>
      denominator (arg_slippageTolerance a) = 100) \<and>
   (env ''HTTP_URL'' = None \<and> loadConfig sdk env = Inr cfg \<and> newConnection sdk None = Inl e \<longrightarrow>
      run sdk w env = \<lparr>events = [], stderr = [e], exit_code = 0\<rparr>)"
proof (intro conjI impI)
  assume "v \<in> set address_vars \<and> env v = None \<and> newPublicKey sdk None = Inl e"
  then have "\<exists>e'. loadConfig sdk env = Inl e'"
    using loadConfig_address_fails [of v sdk env e] by simp
  then show "\<exists>e'. run sdk w env = \<lparr>events = [], stderr = [e'], exit_code = 1\<rparr>"
    by (auto simp: run_load_fails)
next
  assume "env ''AMOUNT'' = None \<and> a \<in> set (quoteCalls (events (run sdk w env)))"
  then show "newBN sdk None = Inr (arg_tokenAmount a)"
    using run_quoteCalls [of a sdk w env] by simp
next
  assume s: "env ''SLIPPAGE'' = None \<and> a \<in> set (quoteCalls (events (run sdk w env)))"
  then show "newBN sdk None = Inr (numerator (arg_slippageTolerance a))"
    using run_quoteCalls [of a sdk w env] by simp
  from s show "denominator (arg_slippageTolerance a) = 100"
    using run_quoteCalls [of a sdk w env] by simp
next
  assume a: "env ''HTTP_URL'' = None \<and> loadConfig sdk env = Inr cfg \<and> newConnection sdk None = Inl e"
  then have "HTTP_URL cfg = None"
    using loadConfig_Inr [of sdk env cfg] by simp
  with a show "run sdk w env = \<lparr>events = [], stderr = [e], exit_code = 0\<rparr>"
    by (simp add: run_def main_body_def)
qed

text \<open>
  Four runs of the test double, each with one variable absent: \<^verbatim>\<open>OUTPUT_TOKEN\<close> stops the
  module load; \<^verbatim>\<open>AMOUNT\<close> reaches the quote call as 0; \<^verbatim>\<open>SLIPPAGE\<close> reaches it as 0 over
  100; \<^verbatim>\<open>HTTP_URL\<close> stops the body at the connection.
\<close>

theorem absent_variable_reaches_the_constructor_witness:
  "(\<exists>e'. run test_sdk test_world (test_env(''OUTPUT_TOKEN'' := None)) =
       \<lparr>events = [], stderr = [e'], exit_code = 1\<rparr>) \<and>
   newBN test_sdk None = Inr 0 \<and>
   map arg_tokenAmount
     (quoteCalls (events (run test_sdk test_world (test_env(''AMOUNT'' := None))))) = [0] \<and>
   map arg_slippageTolerance
     (quoteCalls (events (run test_sdk test_world (test_env(''SLIPPAGE'' := None))))) =
     [\<lparr>numerator = 0, denominator = 100\<rparr>] \<and>
   run test_sdk test_world (test_env(''HTTP_URL'' := None)) =
     \<lparr>events = [], stderr = [Error ''Endpoint URL must start with http: or https:''], exit_code = 0\<rparr>"
proof -
  let ?u = "Error ''Cannot read properties of undefined''"
  let ?c = "Error ''Endpoint URL must start with http: or https:''"
  let ?cfg1 = "\<lparr>WHIRLPOOL_PROGRAM_ID = PublicKey 7, WHIRLPOOL_CONFIG = PublicKey 8,
          INPUT_TOKEN = PublicKey 11, OUTPUT_TOKEN = PublicKey 22,
          HTTP_URL = None, AMOUNT = 1000000, SLIPPAGE = 1\<rparr>"
  let ?pool = "\<lparr>getAddress = PublicKey 708112204, getData = sol_wif_data\<rparr>"
  let ?a0 = "\<lparr>arg_whirlpool = ?pool,
              arg_inputTokenMint = PublicKey 11, arg_tokenAmount = 0,
              arg_slippageTolerance = \<lparr>numerator = 1, denominator = 100\<rparr>,
              arg_programId = PublicKey 7, arg_fetcher = Connection ''https://rpc''\<rparr>"
  let ?a1 = "\<lparr>arg_whirlpool = ?pool,
              arg_inputTokenMint = PublicKey 11, arg_tokenAmount = 1000000,
              arg_slippageTolerance = \<lparr>numerator = 0, denominator = 100\<rparr>,
              arg_programId = PublicKey 7, arg_fetcher = Connection ''https://rpc''\<rparr>"
  have h1: "''OUTPUT_TOKEN'' \<in> set address_vars \<and>
      (test_env(''OUTPUT_TOKEN'' := None)) ''OUTPUT_TOKEN'' = None \<and>
      newPublicKey test_sdk None = Inl ?u"
    by (simp add: address_vars_def stubs)
  have calls0: "quoteCalls (events (run test_sdk test_world (test_env(''AMOUNT'' := None)))) = [?a0]"
    by (simp add: run_no_amount)
  have calls1: "quoteCalls (events (run test_sdk test_world (test_env(''SLIPPAGE'' := None)))) = [?a1]"
    by (simp add: run_no_slippage)
  have h2: "(test_env(''AMOUNT'' := None)) ''AMOUNT'' = None \<and>
      ?a0 \<in> set (quoteCalls (events (run test_sdk test_world (test_env(''AMOUNT'' := None)))))"
    by (simp add: calls0)
  have h3: "(test_env(''SLIPPAGE'' := None)) ''SLIPPAGE'' = None \<and>
      ?a1 \<in> set (quoteCalls (events (run test_sdk test_world (test_env(''SLIPPAGE'' := None)))))"
    by (simp add: calls1)
  have h4: "(test_env(''HTTP_URL'' := None)) ''HTTP_URL'' = None \<and>
      loadConfig test_sdk (test_env(''HTTP_URL'' := None)) = Inr ?cfg1 \<and>
      newConnection test_sdk None = Inl ?c"
    by (simp add: load_no_url) (simp add: stubs)
  from absent_variable_reaches_the_constructor
         [where v = "''OUTPUT_TOKEN''" and env = "test_env(''OUTPUT_TOKEN'' := None)"
            and sdk = test_sdk and e = ?u and w = test_world and a = ?a0 and cfg = ?cfg1] h1
  have "\<exists>e'. run test_sdk test_world (test_env(''OUTPUT_TOKEN'' := None)) =
       \<lparr>events = [], stderr = [e'], exit_code = 1\<rparr>"
    by blast
  moreover from absent_variable_reaches_the_constructor
         [where v = "''AMOUNT''" and env = "test_env(''AMOUNT'' := None)"
            and sdk = test_sdk and e = ?u and w = test_world and a = ?a0 and cfg = ?cfg1] h2
  have "newBN test_sdk None = Inr (arg_tokenAmount ?a0)"
    by blast
  moreover from absent_variable_reaches_the_constructor
         [where v = "''SLIPPAGE''" and env = "test_env(''SLIPPAGE'' := None)"
            and sdk = test_sdk and e = ?u and w = test_world and a = ?a1 and cfg = ?cfg1] h3
  have "newBN test_sdk None = Inr (numerator (arg_slippageTolerance ?a1)) \<and>
        denominator (arg_slippageTolerance ?a1) = 100"
    by blast
  moreover from absent_variable_reaches_the_constructor
         [where v = "''HTTP_URL''" and env = "test_env(''HTTP_URL'' := None)"
            and sdk = test_sdk and e = ?c and w = test_world and a = ?a0 and cfg = ?cfg1] h4
  have "run test_sdk test_world (test_env(''HTTP_URL'' := None)) =
     \<lparr>events = [], stderr = [?c], exit_code = 0\<rparr>"
    by blast
  ultimately show ?thesis by (simp add: calls0 calls1)
qed

text \<open>
  C3 as stated fails. With \<^verbatim>\<open>SLIPPAGE\<close> absent and a \<^verbatim>\<open>BN\<close> constructor that makes 0 of
  \<^verbatim>\<open>undefined\<close>, nothing fails: the quote is asked with a slippage of 0 over 100 and
  printed, no error is printed, and the exit code is 0.
\<close>

theorem absent_slippage_is_quoted_as_zero:
  "(test_env(''SLIPPAGE'' := None)) ''SLIPPAGE'' = None \<and>
   stderr (run test_sdk test_world (test_env(''SLIPPAGE'' := None))) = [] \<and>
   exit_code (run test_sdk test_world (test_env(''SLIPPAGE'' := None))) = 0 \<and>
   map arg_slippageTolerance
     (quoteCalls (events (run test_sdk test_world (test_env(''SLIPPAGE'' := None))))) =
     [\<lparr>numerator = 0, denominator = 100\<rparr>] \<and>
   printedQuotes (events (run test_sdk test_world (test_env(''SLIPPAGE'' := None)))) =
     [(PublicKey 11, 1000000)]"
  by (simp add: run_no_slippage)

section \<open>C4: a value the constructors reject\<close>

text \<open>
  C4 says that the process fails before any network call when \<^verbatim>\<open>AMOUNT\<close> or \<^verbatim>\<open>SLIPPAGE\<close>
  is set to a string that is not a number, or one of the four address variables to a
  string that is not an address. The module has no check of its own: it fails at that
  point exactly when a constructor throws. What holds is this. If the \<^verbatim>\<open>PublicKey\<close>
  constructor throws on the value of an address variable, or the \<^verbatim>\<open>BN\<close> constructor on the
  value of \<^verbatim>\<open>AMOUNT\<close> or \<^verbatim>\<open>SLIPPAGE\<close>, the run ends while the module loads: one error,
  exit code 1, and no event at all, neither a log line nor a read of the network. The
  run ends that way only if one of the six constructor calls throws, and the exit code is
  0 otherwise: a string that its constructor accepts, number or not, does not stop the
  run.
\<close>

theorem rejected_value_fails_before_any_network_call:
  "((v \<in> set address_vars \<and> env v = Some s \<and> newPublicKey sdk (Some s) = Inl e) \<or>
    (v \<in> set number_vars \<and> env v = Some s \<and> newBN sdk (Some s) = Inl e) \<longrightarrow>
      (\<exists>e'. run sdk w env = \<lparr>events = [], stderr = [e'], exit_code = 1\<rparr>)) \<and>
   ((\<exists>e'. run sdk w env = \<lparr>events = [], stderr = [e'], exit_code = 1\<rparr>) \<longleftrightarrow>
    (\<exists>u e'. (u \<in> set address_vars \<and> newPublicKey sdk (env u) = Inl e') \<or>
            (u \<in> set number_vars \<and> newBN sdk (env u) = Inl e'))) \<and>
   (exit_code (run sdk w env) = 0 \<longleftrightarrow>
    \<not> (\<exists>u e'. (u \<in> set address_vars \<and> newPublicKey sdk (env u) = Inl e') \<or>
              (u \<in> set number_vars \<and> newBN sdk (env u) = Inl e')))"
proof -
  let ?throws = "\<exists>u e'. (u \<in> set address_vars \<and> newPublicKey sdk (env u) = Inl e') \<or>
                        (u \<in> set number_vars \<and> newBN sdk (env u) = Inl e')"
  let ?stopped = "\<exists>e'. run sdk w env = \<lparr>events = [], stderr = [e'], exit_code = 1\<rparr>"
  have load: "(\<exists>e'. loadConfig sdk env = Inl e') \<longleftrightarrow> ?throws"
    by (rule loadConfig_Inl_iff)
  have stopped: "?stopped \<longleftrightarrow> (\<exists>e'. loadConfig sdk env = Inl e')"
  proof (cases "loadConfig sdk env")
    case (Inl e0)
    then show ?thesis by (simp add: run_load_fails)
  next
    case (Inr cfg)
    then have "exit_code (run sdk w env) = 0" by (rule exit_code_run)
    then have "\<not> ?stopped" by auto
    with Inr show ?thesis by simp
  qed
  have code: "exit_code (run sdk w env) = 0 \<longleftrightarrow> \<not> (\<exists>e'. loadConfig sdk env = Inl e')"
    by (cases "loadConfig sdk env") (simp_all add: run_load_fails exit_code_run)
  have first: "(v \<in> set address_vars \<and> env v = Some s \<and> newPublicKey sdk (Some s) = Inl e) \<or>
      (v \<in> set number_vars \<and> env v = Some s \<and> newBN sdk (Some s) = Inl e) \<longrightarrow> ?stopped"
  proof
    assume "(v \<in> set address_vars \<and> env v = Some s \<and> newPublicKey sdk (Some s) = Inl e) \<or>
      (v \<in> set number_vars \<and> env v = Some s \<and> newBN sdk (Some s) = Inl e)"
    then have "(v \<in> set address_vars \<and> newPublicKey sdk (env v) = Inl e) \<or>
      (v \<in> set number_vars \<and> newBN sdk (env v) = Inl e)"
      by auto
    then have ?throws by blast
    with load stopped show ?stopped by simp
  qed
  from first load stopped code show ?thesis by simp
qed

text \<open>
  Two runs of the test double: \<^verbatim>\<open>AMOUNT\<close> set to \<^verbatim>\<open>abc\<close>, and \<^verbatim>\<open>WHIRLPOOL_CONFIG\<close> set to
  \<^verbatim>\<open>0OIl\<close>, four characters that the address alphabet leaves out.
\<close>

theorem rejected_value_fails_before_any_network_call_witness:
  "(\<exists>e'. run test_sdk test_world (test_env(''AMOUNT'' := Some ''abc'')) =
       \<lparr>events = [], stderr = [e'], exit_code = 1\<rparr>) \<and>
   (\<exists>e'. run test_sdk test_world (test_env(''WHIRLPOOL_CONFIG'' := Some ''0OIl'')) =
       \<lparr>events = [], stderr = [e'], exit_code = 1\<rparr>)"
proof -
  have h1: "(''AMOUNT'' \<in> set address_vars \<and> (test_env(''AMOUNT'' := Some ''abc'')) ''AMOUNT'' = Some ''abc'' \<and>
               newPublicKey test_sdk (Some ''abc'') = Inl (Error ''Invalid character'')) \<or>
            (''AMOUNT'' \<in> set number_vars \<and> (test_env(''AMOUNT'' := Some ''abc'')) ''AMOUNT'' = Some ''abc'' \<and>
               newBN test_sdk (Some ''abc'') = Inl (Error ''Invalid character''))"
    by (simp add: number_vars_def stubs)
  have h2: "(''WHIRLPOOL_CONFIG'' \<in> set address_vars \<and>
               (test_env(''WHIRLPOOL_CONFIG'' := Some ''0OIl'')) ''WHIRLPOOL_CONFIG'' = Some ''0OIl'' \<and>
               newPublicKey test_sdk (Some ''0OIl'') = Inl (Error ''Invalid public key input'')) \<or>
            (''WHIRLPOOL_CONFIG'' \<in> set number_vars \<and>
               (test_env(''WHIRLPOOL_CONFIG'' := Some ''0OIl'')) ''WHIRLPOOL_CONFIG'' = Some ''0OIl'' \<and>
               newBN test_sdk (Some ''0OIl'') = Inl (Error ''Invalid public key input''))"
    by (simp add: address_vars_def stubs)
  from rejected_value_fails_before_any_network_call
         [where v = "''AMOUNT''" and env = "test_env(''AMOUNT'' := Some ''abc'')" and s = "''abc''"
            and sdk = test_sdk and e = "Error ''Invalid character''" and w = test_world] h1
  have "\<exists>e'. run test_sdk test_world (test_env(''AMOUNT'' := Some ''abc'')) =
       \<lparr>events = [], stderr = [e'], exit_code = 1\<rparr>"
    by blast
  moreover from rejected_value_fails_before_any_network_call
         [where v = "''WHIRLPOOL_CONFIG''" and env = "test_env(''WHIRLPOOL_CONFIG'' := Some ''0OIl'')"
            and s = "''0OIl''" and sdk = test_sdk and e = "Error ''Invalid public key input''"
            and w = test_world] h2
  have "\<exists>e'. run test_sdk test_world (test_env(''WHIRLPOOL_CONFIG'' := Some ''0OIl'')) =
       \<lparr>events = [], stderr = [e'], exit_code = 1\<rparr>"
    by blast
  ultimately show ?thesis by blast
qed

text \<open>
  C4 as stated fails. The empty string is not a number, and a \<^verbatim>\<open>BN\<close> constructor that
  reads it as 0, as bn.js does, does not throw on it: with \<^verbatim>\<open>AMOUNT\<close> set to the empty
  string the module loads, the run reads the pool account from the network, and the exit
  code is 0.
\<close>

theorem empty_amount_reads_the_network:
  "(test_env(''AMOUNT'' := Some '''')) ''AMOUNT'' = Some '''' \<and>
   newBN test_sdk (Some '''') = Inr 0 \<and>
   poolReads (events (run test_sdk test_world (test_env(''AMOUNT'' := Some '''')))) =
     [PublicKey 708112204] \<and>
   exit_code (run test_sdk test_world (test_env(''AMOUNT'' := Some ''''))) = 0"
  by (simp add: run_empty_amount) (simp add: stubs)

section \<open>C5: the pool address\<close>

text \<open>
  C5: two runs with the same valid values of the four address variables derive the same
  pool address, a function of the program id, the config id, the two mints and the tick
  spacing 4, whatever the network answers. The two runs below may differ in the other
  three variables and in the chain; each reads no address but the derived one.
\<close>

theorem pool_address_is_a_function_of_four_values:
  assumes "loadConfig sdk env1 = Inr cfg1" and "loadConfig sdk env2 = Inr cfg2"
    and "\<forall>v \<in> set address_vars. env1 v = env2 v"
  shows "whirlpoolPda sdk cfg1 = whirlpoolPda sdk cfg2 \<and>
         whirlpoolPda sdk cfg1 =
           getWhirlpool sdk (WHIRLPOOL_PROGRAM_ID cfg1) (WHIRLPOOL_CONFIG cfg1)
             (INPUT_TOKEN cfg1) (OUTPUT_TOKEN cfg1) 4 \<and>
         set (poolReads (events (run sdk w1 env1))) \<subseteq> {whirlpoolPda sdk cfg1} \<and>
         set (poolReads (events (run sdk w2 env2))) \<subseteq> {whirlpoolPda sdk cfg1}"
proof -
  from assms(3) have eqs: "env1 ''WHIRLPOOL_PROGRAM_ID'' = env2 ''WHIRLPOOL_PROGRAM_ID''"
    "env1 ''WHIRLPOOL_CONFIG'' = env2 ''WHIRLPOOL_CONFIG''"
    "env1 ''INPUT_TOKEN'' = env2 ''INPUT_TOKEN''"
    "env1 ''OUTPUT_TOKEN'' = env2 ''OUTPUT_TOKEN''"
    by (simp_all add: address_vars_def)
  from loadConfig_Inr [OF assms(1)] loadConfig_Inr [OF assms(2)] eqs
  have same: "WHIRLPOOL_PROGRAM_ID cfg1 = WHIRLPOOL_PROGRAM_ID cfg2"
    "WHIRLPOOL_CONFIG cfg1 = WHIRLPOOL_CONFIG cfg2"
    "INPUT_TOKEN cfg1 = INPUT_TOKEN cfg2" "OUTPUT_TOKEN cfg1 = OUTPUT_TOKEN cfg2"
    by simp_all
  then have pda: "whirlpoolPda sdk cfg1 = whirlpoolPda sdk cfg2"
    by (simp add: whirlpoolPda_def)
  have r1: "set (poolReads (events (run sdk w1 env1))) \<subseteq> {whirlpoolPda sdk cfg1}"
    using body_poolReads [of sdk w1 env1 cfg1] by (simp add: events_run [OF assms(1)])
  have r2: "set (poolReads (events (run sdk w2 env2))) \<subseteq> {whirlpoolPda sdk cfg2}"
    using body_poolReads [of sdk w2 env2 cfg2] by (simp add: events_run [OF assms(2)])
  from pda r1 r2 show ?thesis by (simp add: whirlpoolPda_def)
qed

theorem pool_address_is_a_function_of_four_values_witness:
  "whirlpoolPda test_sdk
      \<lparr>WHIRLPOOL_PROGRAM_ID = PublicKey 7, WHIRLPOOL_CONFIG = PublicKey 8,
       INPUT_TOKEN = PublicKey 11, OUTPUT_TOKEN = PublicKey 22,
       HTTP_URL = Some ''https://rpc'', AMOUNT = 1000000, SLIPPAGE = 1\<rparr> =
   whirlpoolPda test_sdk
      \<lparr>WHIRLPOOL_PROGRAM_ID = PublicKey 7, WHIRLPOOL_CONFIG = PublicKey 8,
       INPUT_TOKEN = PublicKey 11, OUTPUT_TOKEN = PublicKey 22,
       HTTP_URL = Some ''http://other'', AMOUNT = 0, SLIPPAGE = 1\<rparr> \<and>
   poolReads (events (run test_sdk test_world test_env)) = [PublicKey 708112204] \<and>
   poolReads (events (run test_sdk []
      (test_env(''AMOUNT'' := None, ''HTTP_URL'' := Some ''http://other'')))) = [PublicKey 708112204]"
proof -
  have same: "\<forall>v \<in> set address_vars.
      test_env v = (test_env(''AMOUNT'' := None, ''HTTP_URL'' := Some ''http://other'')) v"
    by (simp add: address_vars_def)
  have r2: "run test_sdk [] (test_env(''AMOUNT'' := None, ''HTTP_URL'' := Some ''http://other'')) =
     \<lparr>events = [EvLogProgram (Some ''Prog''), EvGetPool (PublicKey 708112204)],
      stderr = [Error ''Unable to fetch Whirlpool''], exit_code = 0\<rparr>"
    by (simp add: run_def load_other) (simp add: body_defs stubs)
  from pool_address_is_a_function_of_four_values [OF load_test load_other same, of test_world "[]"]
  show ?thesis by (simp add: run_test r2)
qed

section \<open>C6: the swap direction\<close>




section \<open>C7: the tick-array list\<close>

text \<open>
  The list printed on line 57 is what \<^verbatim>\<open>SwapUtils.getTickArrayPublicKeys\<close> returns for the
  tick index, the tick spacing, the direction, the program id and the pool address. The
  module adds nothing to it: two pools and configurations that agree on the five values
  give the same list. Whether the list is empty is decided inside the SDK.
\<close>

lemma tickArrays_function_of_tuple:
  assumes "tickCurrentIndex (getData pool1) = tickCurrentIndex (getData pool2)"
    and "tickSpacing (getData pool1) = tickSpacing (getData pool2)"
    and "aToB (getData pool1) cfg1 = aToB (getData pool2) cfg2"
    and "WHIRLPOOL_PROGRAM_ID cfg1 = WHIRLPOOL_PROGRAM_ID cfg2"
    and "getAddress pool1 = getAddress pool2"
  shows "tickArrays sdk cfg1 pool1 = tickArrays sdk cfg2 pool2"
  using assms by (simp add: tickArrays_def Let_def)

section \<open>C8: the slippage tolerance\<close>

text \<open>
  C8: the slippage passed to every quote call is the fraction with the configured
  \<^verbatim>\<open>SLIPPAGE\<close>, as the \<^verbatim>\<open>BN\<close> constructor read it from the environment, as numerator and
  100 as denominator; as a rational number it is exactly \<^verbatim>\<open>SLIPPAGE\<close>/100.
\<close>

theorem slippage_is_SLIPPAGE_over_100:
  assumes "loadConfig sdk env = Inr cfg"
    and "a \<in> set (quoteCalls (events (run sdk w env)))"
  shows "newBN sdk (env ''SLIPPAGE'') = Inr (SLIPPAGE cfg) \<and>
         arg_slippageTolerance a = fromFraction (SLIPPAGE cfg) 100 \<and>
         numerator (arg_slippageTolerance a) = SLIPPAGE cfg \<and>
         denominator (arg_slippageTolerance a) = 100 \<and>
         percentage_value (arg_slippageTolerance a) = of_int (SLIPPAGE cfg) / 100"
proof -
  from assms have "a \<in> set (quoteCalls (fst (main_body sdk w env cfg)))"
    by (simp add: events_run)
  then obtain ctx pool where "a = quoteArgs ctx cfg pool"
    by (blast dest: body_quoteCalls)
  then have "arg_slippageTolerance a = fromFraction (SLIPPAGE cfg) 100"
    by (simp add: quoteArgs_def)
  with loadConfig_Inr [OF assms(1)] show ?thesis
    by (simp add: fromFraction_def percentage_value_def)
qed

theorem slippage_is_SLIPPAGE_over_100_witness:
  "newBN test_sdk (test_env ''SLIPPAGE'') = Inr 1 \<and>
   map arg_slippageTolerance (quoteCalls (events (run test_sdk test_world test_env))) =
     [\<lparr>numerator = 1, denominator = 100\<rparr>] \<and>
   percentage_value \<lparr>numerator = 1, denominator = 100\<rparr> = 1 / 100"
proof -
  let ?a = "\<lparr>arg_whirlpool = \<lparr>getAddress = PublicKey 708112204, getData = sol_wif_data\<rparr>,
                   arg_inputTokenMint = PublicKey 11, arg_tokenAmount = 1000000,
                   arg_slippageTolerance = \<lparr>numerator = 1, denominator = 100\<rparr>,
                   arg_programId = PublicKey 7, arg_fetcher = Connection ''https://rpc''\<rparr>"
  have calls: "quoteCalls (events (run test_sdk test_world test_env)) = [?a]"
    by (simp add: run_test)
  then have mem: "?a \<in> set (quoteCalls (events (run test_sdk test_world test_env)))"
    by simp
  from slippage_is_SLIPPAGE_over_100 [OF load_test mem] calls show ?thesis
    by (simp add: fromFraction_def percentage_value_def)
qed

section \<open>C9: the tick-array list is only printed\<close>

text \<open>
  C9: the tick-array list is printed and not passed to the quote. Two runs that differ
  only in the list the tick-array function returns make the same quote calls, print the
  same quotes and the same errors, and end with the same exit code.
\<close>

theorem tick_arrays_do_not_reach_the_quote:
  "quoteCalls (events (run (sdk\<lparr>getTickArrayPublicKeys := f\<rparr>) w env)) =
     quoteCalls (events (run sdk w env)) \<and>
   printedQuotes (events (run (sdk\<lparr>getTickArrayPublicKeys := f\<rparr>) w env)) =
     printedQuotes (events (run sdk w env)) \<and>
   stderr (run (sdk\<lparr>getTickArrayPublicKeys := f\<rparr>) w env) = stderr (run sdk w env) \<and>
   exit_code (run (sdk\<lparr>getTickArrayPublicKeys := f\<rparr>) w env) = exit_code (run sdk w env)"
proof (cases "loadConfig sdk env")
  case (Inl e)
  then show ?thesis
    by (simp add: run_load_fails loadConfig_tick_arrays)
next
  case (Inr cfg)
  then have "loadConfig (sdk\<lparr>getTickArrayPublicKeys := f\<rparr>) env = Inr cfg"
    by (simp add: loadConfig_tick_arrays)
  with Inr show ?thesis
    by (simp add: events_run stderr_run exit_code_run body_tick_arrays)
qed

theorem tick_arrays_do_not_reach_the_quote_witness:
  "events (run (test_sdk\<lparr>getTickArrayPublicKeys := \<lambda>tick spacing a_to_b pid pool. []\<rparr>) test_world test_env)
     \<noteq> events (run test_sdk test_world test_env) \<and>
   printedQuotes (events (run (test_sdk\<lparr>getTickArrayPublicKeys := \<lambda>tick spacing a_to_b pid pool. []\<rparr>)
       test_world test_env)) = [(PublicKey 11, 1000000)]"
proof -
  let ?sdk = "test_sdk\<lparr>getTickArrayPublicKeys := \<lambda>tick spacing a_to_b pid pool. []\<rparr>"
  have "loadConfig ?sdk test_env = Inr test_config"
    by (simp add: loadConfig_tick_arrays load_test test_config_def)
  then have "events (run ?sdk test_world test_env) = fst (main_body ?sdk test_world test_env test_config)"
    by (rule events_run)
  also have "\<dots> = [EvLogProgram (Some ''Prog''), EvGetPool (PublicKey 708112204),
                EvLogTickArrays [],
                EvSwapQuote \<lparr>arg_whirlpool = \<lparr>getAddress = PublicKey 708112204, getData = sol_wif_data\<rparr>,
                   arg_inputTokenMint = PublicKey 11, arg_tokenAmount = 1000000,
                   arg_slippageTolerance = \<lparr>numerator = 1, denominator = 100\<rparr>,
                   arg_programId = PublicKey 7, arg_fetcher = Connection ''https://rpc''\<rparr>,
                EvLogQuote (PublicKey 11, 1000000)]"
    by (simp add: body_defs stubs test_config_def)
  finally have "events (run ?sdk test_world test_env) \<noteq> events (run test_sdk test_world test_env)"
    by (simp add: run_test)
  with tick_arrays_do_not_reach_the_quote
         [where sdk = test_sdk and f = "\<lambda>tick spacing a_to_b pid pool. []" and w = test_world
            and env = test_env]
  show ?thesis by (simp add: run_test)
qed

section \<open>C10: the order of the two mints\<close>

text \<open>
  C10: the derivation is called with \<^verbatim>\<open>INPUT_TOKEN\<close> in the token-A position and
  \<^verbatim>\<open>OUTPUT_TOKEN\<close> in the token-B position, and the module does not order the two. With
  the two variables exchanged the module derives the address of the exchanged pair, so
  whenever the derivation tells the two orders apart, the derived address changes.
\<close>

theorem pool_address_depends_on_mint_order:
  assumes "loadConfig sdk env = Inr cfg"
    and "getWhirlpool sdk (WHIRLPOOL_PROGRAM_ID cfg) (WHIRLPOOL_CONFIG cfg)
           (INPUT_TOKEN cfg) (OUTPUT_TOKEN cfg) 4 \<noteq>
         getWhirlpool sdk (WHIRLPOOL_PROGRAM_ID cfg) (WHIRLPOOL_CONFIG cfg)
           (OUTPUT_TOKEN cfg) (INPUT_TOKEN cfg) 4"
  shows "loadConfig sdk (swapTokens env) =
           Inr (cfg\<lparr>INPUT_TOKEN := OUTPUT_TOKEN cfg, OUTPUT_TOKEN := INPUT_TOKEN cfg\<rparr>) \<and>
         whirlpoolPda sdk cfg =
           getWhirlpool sdk (WHIRLPOOL_PROGRAM_ID cfg) (WHIRLPOOL_CONFIG cfg)
             (INPUT_TOKEN cfg) (OUTPUT_TOKEN cfg) 4 \<and>
         whirlpoolPda sdk (cfg\<lparr>INPUT_TOKEN := OUTPUT_TOKEN cfg, OUTPUT_TOKEN := INPUT_TOKEN cfg\<rparr>) =
           getWhirlpool sdk (WHIRLPOOL_PROGRAM_ID cfg) (WHIRLPOOL_CONFIG cfg)
             (OUTPUT_TOKEN cfg) (INPUT_TOKEN cfg) 4 \<and>
         whirlpoolPda sdk (cfg\<lparr>INPUT_TOKEN := OUTPUT_TOKEN cfg, OUTPUT_TOKEN := INPUT_TOKEN cfg\<rparr>) \<noteq>
           whirlpoolPda sdk cfg"
proof -
  from assms(1) have "loadConfig sdk (swapTokens env) =
           Inr (cfg\<lparr>INPUT_TOKEN := OUTPUT_TOKEN cfg, OUTPUT_TOKEN := INPUT_TOKEN cfg\<rparr>)"
    by (auto simp: loadConfig_def swapTokens_def split: sum.splits)
  with assms(2) show ?thesis
    by (simp add: whirlpoolPda_def)
qed

theorem pool_address_depends_on_mint_order_witness:
  "loadConfig test_sdk (swapTokens test_env) =
     Inr \<lparr>WHIRLPOOL_PROGRAM_ID = PublicKey 7, WHIRLPOOL_CONFIG = PublicKey 8,
          INPUT_TOKEN = PublicKey 22, OUTPUT_TOKEN = PublicKey 11,
          HTTP_URL = Some ''https://rpc'', AMOUNT = 1000000, SLIPPAGE = 1\<rparr> \<and>
   whirlpoolPda test_sdk test_config = PublicKey 708112204 \<and>
   whirlpoolPda test_sdk (test_config\<lparr>INPUT_TOKEN := PublicKey 22, OUTPUT_TOKEN := PublicKey 11\<rparr>) =
     PublicKey 708221104"
proof -
  have l: "loadConfig test_sdk test_env = Inr test_config"
    by (simp add: load_test test_config_def)
  have d: "getWhirlpool test_sdk (WHIRLPOOL_PROGRAM_ID test_config) (WHIRLPOOL_CONFIG test_config)
           (INPUT_TOKEN test_config) (OUTPUT_TOKEN test_config) 4 \<noteq>
         getWhirlpool test_sdk (WHIRLPOOL_PROGRAM_ID test_config) (WHIRLPOOL_CONFIG test_config)
           (OUTPUT_TOKEN test_config) (INPUT_TOKEN test_config) 4"
    by (simp add: test_sdk_def test_config_def)
  from pool_address_depends_on_mint_order [OF l d] show ?thesis
    by (simp add: test_sdk_def test_config_def)
qed

end
